theory Spec2Isabelle
  imports Main "HOL-Library.Word"
begin

section \<open>SafePublish: a guard around the publish operation of an MQTT client\<close>

text \<open>
  The development follows \<^verbatim>\<open>src/SafePublish.h\<close>, a C++ header for the ESP32.
  On that target \<^verbatim>\<open>int\<close> is a 32-bit two's complement integer and
  \<^verbatim>\<open>unsigned long\<close> is a 32-bit unsigned integer.
  \<^item> A value of type \<^verbatim>\<open>int\<close> is an \<open>int\<close> of HOL, and every arithmetic
    operation of the source on it is written with its wrap-around (\<open>to_int\<close>), which is
    what the target computes where C++ leaves a signed overflow undefined. The statements
    below say where they need a sum to be an \<^verbatim>\<open>int\<close>, that is, at most \<open>2 ^ 31 - 1\<close>.
  \<^item> A value of type \<^verbatim>\<open>unsigned long\<close> is a \<open>32 word\<close>: \<open>+\<close> wraps modulo
    \<open>2 ^ 32\<close>, the order is the unsigned one.
  \<^item> A \<^verbatim>\<open>const char*\<close> argument is the \<open>string\<close> of the bytes before its
    terminating NUL, so that \<^verbatim>\<open>strlen\<close> is the length of the list.
\<close>

subsection \<open>The integers of the source\<close>

definition to_int :: "int \<Rightarrow> int" where
  "to_int x = (x + 2147483648) mod 4294967296 - 2147483648"

definition int_add :: "int \<Rightarrow> int \<Rightarrow> int" where
  "int_add a b = to_int (a + b)"

definition int_sub :: "int \<Rightarrow> int \<Rightarrow> int" where
  "int_sub a b = to_int (a - b)"

definition int_mul :: "int \<Rightarrow> int \<Rightarrow> int" where
  "int_mul a b = to_int (a * b)"

definition strlen :: "string \<Rightarrow> nat" where
  "strlen s = length s"

text \<open>The conversion of the \<^verbatim>\<open>size_t\<close> that \<^verbatim>\<open>strlen\<close> returns to \<^verbatim>\<open>int\<close>.\<close>

definition int_of_size_t :: "nat \<Rightarrow> int" where
  "int_of_size_t n = to_int (int n)"

type_synonym ulong = "32 word"

subsection \<open>The underlying client and the output sink\<close>

text \<open>
  \<^verbatim>\<open>PubSubClient\<close> is an external library: the header uses four of its member
  functions and nothing else of it. The client is therefore a parameter: a state of any
  type \<open>'c\<close> and the four member functions, each taking the client's state and giving
  its result with the client's next state. The buffer size is what the source reads into
  (and passes from) a variable of type \<^verbatim>\<open>int\<close>.
\<close>

record 'c PubSubClient =
  client_getBufferSize :: "'c \<Rightarrow> int \<times> 'c"
  client_connected :: "'c \<Rightarrow> bool \<times> 'c"
  client_publish :: "string \<Rightarrow> string \<Rightarrow> 'c \<Rightarrow> bool \<times> 'c"
  client_setBufferSize :: "int \<Rightarrow> 'c \<Rightarrow> bool \<times> 'c"

text \<open>The calls the guard makes on its client are recorded, oldest first.\<close>

datatype client_call =
    Call_getBufferSize
  | Call_connected
  | Call_publish string string
  | Call_setBufferSize int

text \<open>
  One constructor for each \<^verbatim>\<open>Serial.println\<close> and \<^verbatim>\<open>Serial.printf\<close> of the
  source, carrying the arguments of the call in their order. The fixed text of a line
  (banner, labels, emoji) is not modelled. The line of the failure rate carries the two
  operands of the division, \<^verbatim>\<open>_failCount\<close> and \<^verbatim>\<open>_successCount + _failCount\<close>;
  the floating-point quotient itself is not modelled.
\<close>

datatype serial_line =
    Blank_line
  | Banner_top
  | Banner_title
  | Banner_bottom
  | Topic_line string int
  | Payload_line int
  | Total_line int
  | Buffer_line int
  | Overflow_line int
  | Fix_header_line
  | Fix_line int
  | Not_connected_line string
  | Published_line string int
  | Failed_line string int int
  | Auto_configured_line int int
  | Stats_header_line
  | Stats_success_line ulong
  | Stats_failed_line ulong
  | Stats_rate_line ulong ulong

subsection \<open>The guard\<close>

text \<open>
  The members \<^verbatim>\<open>_client\<close>, \<^verbatim>\<open>_successCount\<close> and \<^verbatim>\<open>_failCount\<close>, with the
  calls made on the client and the lines written to \<^verbatim>\<open>Serial\<close> so far.
\<close>

record 'c SafePublish =
  client :: 'c
  successCount :: ulong
  failCount :: ulong
  calls :: "client_call list"
  serial :: "serial_line list"

text \<open>The constructor: both counters start at 0.\<close>

definition SafePublish_new :: "'c \<Rightarrow> 'c SafePublish" where
  "SafePublish_new c =
     \<lparr>client = c, successCount = 0, failCount = 0, calls = [], serial = []\<rparr>"

definition MQTT_OVERHEAD :: int where
  "MQTT_OVERHEAD = 10"

definition print :: "serial_line list \<Rightarrow> 'c SafePublish \<Rightarrow> 'c SafePublish" where
  "print ls s = s\<lparr>serial := serial s @ ls\<rparr>"

definition getBufferSize :: "'c PubSubClient \<Rightarrow> 'c SafePublish \<Rightarrow> int \<times> 'c SafePublish" where
  "getBufferSize cl s =
     (case client_getBufferSize cl (client s) of
        (r, c) \<Rightarrow> (r, s\<lparr>client := c, calls := calls s @ [Call_getBufferSize]\<rparr>))"

definition connected :: "'c PubSubClient \<Rightarrow> 'c SafePublish \<Rightarrow> bool \<times> 'c SafePublish" where
  "connected cl s =
     (case client_connected cl (client s) of
        (r, c) \<Rightarrow> (r, s\<lparr>client := c, calls := calls s @ [Call_connected]\<rparr>))"

definition publish_call ::
  "'c PubSubClient \<Rightarrow> string \<Rightarrow> string \<Rightarrow> 'c SafePublish \<Rightarrow> bool \<times> 'c SafePublish" where
  "publish_call cl topic payload s =
     (case client_publish cl topic payload (client s) of
        (r, c) \<Rightarrow> (r, s\<lparr>client := c, calls := calls s @ [Call_publish topic payload]\<rparr>))"

definition setBufferSize :: "'c PubSubClient \<Rightarrow> int \<Rightarrow> 'c SafePublish \<Rightarrow> bool \<times> 'c SafePublish" where
  "setBufferSize cl n s =
     (case client_setBufferSize cl n (client s) of
        (r, c) \<Rightarrow> (r, s\<lparr>client := c, calls := calls s @ [Call_setBufferSize n]\<rparr>))"

text \<open>
  \<^verbatim>\<open>int p = 128; while (p < n && p < 8192) p *= 2; return p;\<close>
  The loop is a function of \<open>p\<close> that does not return for every \<open>p\<close> (from \<open>p = 0\<close>
  and \<open>n = 1\<close> it runs forever), so not returning is the value \<open>None\<close>.
\<close>

partial_function (option) nextPowerOf2_loop :: "int \<Rightarrow> int \<Rightarrow> int option" where
  "nextPowerOf2_loop n p =
     (if p < n \<and> p < 8192 then nextPowerOf2_loop n (int_mul p 2) else Some p)"

definition nextPowerOf2 :: "int \<Rightarrow> int option" where
  "nextPowerOf2 n = nextPowerOf2_loop n 128"

declare nextPowerOf2_loop.simps [code]

text \<open>\<^verbatim>\<open>bool publish(const char* topic, const char* payload)\<close>\<close>

definition publish ::
  "'c PubSubClient \<Rightarrow> string \<Rightarrow> string \<Rightarrow> 'c SafePublish \<Rightarrow> (bool \<times> 'c SafePublish) option" where
  "publish cl topic payload s =
     (let topicLen = int_of_size_t (strlen topic);
          payloadLen = int_of_size_t (strlen payload);
          totalSize = int_add (int_add topicLen payloadLen) MQTT_OVERHEAD;
          (bufferSize, s1) = getBufferSize cl s
      in
        if totalSize > bufferSize then
          (case nextPowerOf2 (int_add totalSize 50) of
             None \<Rightarrow> None
           | Some suggested \<Rightarrow>
               (let s2 = print
                      [Blank_line, Banner_top, Banner_title, Banner_bottom,
                       Topic_line topic topicLen,
                       Payload_line payloadLen,
                       Total_line totalSize,
                       Buffer_line bufferSize,
                       Overflow_line (int_sub totalSize bufferSize),
                       Blank_line,
                       Fix_header_line,
                       Fix_line suggested,
                       Blank_line] s1
                in Some (False, s2\<lparr>failCount := failCount s2 + 1\<rparr>)))
        else
          (let (isConnected, s2) = connected cl s1 in
             if \<not> isConnected then
               (let s3 = print [Not_connected_line topic] s2
                in Some (False, s3\<lparr>failCount := failCount s3 + 1\<rparr>))
             else
               (let (sent, s3) = publish_call cl topic payload s2 in
                  if sent then
                    (let s4 = s3\<lparr>successCount := successCount s3 + 1\<rparr>
                     in Some (sent, print [Published_line topic payloadLen] s4))
                  else
                    (let s4 = s3\<lparr>failCount := failCount s3 + 1\<rparr>
                     in Some (sent, print [Failed_line topic totalSize bufferSize] s4)))))"

text \<open>
  The \<^verbatim>\<open>String\<close> of the Arduino core, as far as the header uses it: the C string that
  \<^verbatim>\<open>c_str()\<close> gives.
\<close>

datatype String = String (c_str: string)

text \<open>\<^verbatim>\<open>bool publish(const String &topic, const String &payload)\<close>\<close>

definition publish_String ::
  "'c PubSubClient \<Rightarrow> String \<Rightarrow> String \<Rightarrow> 'c SafePublish \<Rightarrow> (bool \<times> 'c SafePublish) option" where
  "publish_String cl topic payload s = publish cl (c_str topic) (c_str payload) s"

definition autoConfigureBuffer ::
  "'c PubSubClient \<Rightarrow> int \<Rightarrow> int \<Rightarrow> 'c SafePublish \<Rightarrow> (int \<times> 'c SafePublish) option" where
  "autoConfigureBuffer cl maxTopicLen maxPayloadLen s =
     (let needed = int_add (int_add (int_add maxTopicLen maxPayloadLen) MQTT_OVERHEAD) 50
      in
        case nextPowerOf2 needed of
          None \<Rightarrow> None
        | Some bufSize \<Rightarrow>
            (let (_, s1) = setBufferSize cl bufSize s;
                 s2 = print [Auto_configured_line bufSize needed] s1
             in Some (bufSize, s2)))"

definition printStats :: "'c SafePublish \<Rightarrow> 'c SafePublish" where
  "printStats s =
     (let s1 = print
            [Stats_header_line,
             Stats_success_line (successCount s),
             Stats_failed_line (failCount s)] s
      in
        if failCount s > 0 then
          print [Stats_rate_line (failCount s) (successCount s + failCount s)] s1
        else s1)"

definition getSuccessCount :: "'c SafePublish \<Rightarrow> ulong" where
  "getSuccessCount s = successCount s"

definition getFailCount :: "'c SafePublish \<Rightarrow> ulong" where
  "getFailCount s = failCount s"

definition resetStats :: "'c SafePublish \<Rightarrow> 'c SafePublish" where
  "resetStats s = s\<lparr>successCount := 0, failCount := 0\<rparr>"

subsection \<open>Sequences of operations on a guard\<close>

datatype operation =
    Publish string string
  | Publish_String String String
  | AutoConfigureBuffer int int
  | PrintStats
  | GetSuccessCount
  | GetFailCount
  | ResetStats

fun step :: "'c PubSubClient \<Rightarrow> operation \<Rightarrow> 'c SafePublish \<Rightarrow> 'c SafePublish option" where
  "step cl (Publish topic payload) s = map_option snd (publish cl topic payload s)"
| "step cl (Publish_String topic payload) s = map_option snd (publish_String cl topic payload s)"
| "step cl (AutoConfigureBuffer a b) s = map_option snd (autoConfigureBuffer cl a b s)"
| "step cl PrintStats s = Some (printStats s)"
| "step cl GetSuccessCount s = Some s"
| "step cl GetFailCount s = Some s"
| "step cl ResetStats s = Some (resetStats s)"

fun run :: "'c PubSubClient \<Rightarrow> operation list \<Rightarrow> 'c SafePublish \<Rightarrow> 'c SafePublish option" where
  "run cl [] s = Some s"
| "run cl (x # xs) s = (case step cl x s of None \<Rightarrow> None | Some s' \<Rightarrow> run cl xs s')"

subsection \<open>A client for concrete runs\<close>

text \<open>
  A client that holds a buffer size, whether it is connected, and whether its publish
  operation succeeds; \<open>setBufferSize\<close> stores every size but 0, which it refuses.
\<close>

record test_client =
  tc_bufferSize :: int
  tc_connected :: bool
  tc_accepts :: bool

definition test_PubSubClient :: "test_client PubSubClient" where
  "test_PubSubClient =
     \<lparr>client_getBufferSize = (\<lambda>c. (tc_bufferSize c, c)),
      client_connected = (\<lambda>c. (tc_connected c, c)),
      client_publish = (\<lambda>topic payload c. (tc_accepts c, c)),
      client_setBufferSize =
        (\<lambda>n c. if n = 0 then (False, c) else (True, c\<lparr>tc_bufferSize := n\<rparr>))\<rparr>"

subsection \<open>Notions used in the statements\<close>

text \<open>The buffer size the client reports in a state.\<close>

definition reported_bufferSize :: "'c PubSubClient \<Rightarrow> 'c \<Rightarrow> int" where
  "reported_bufferSize cl c = fst (client_getBufferSize cl c)"

fun is_publish :: "operation \<Rightarrow> bool" where
  "is_publish (Publish topic payload) = True"
| "is_publish (Publish_String topic payload) = True"
| "is_publish x = False"

fun is_autoConfigureBuffer :: "operation \<Rightarrow> bool" where
  "is_autoConfigureBuffer (AutoConfigureBuffer a b) = True"
| "is_autoConfigureBuffer x = False"

section \<open>Auxiliary facts\<close>

lemma to_int_id: "- 2147483648 \<le> x \<Longrightarrow> x \<le> 2147483647 \<Longrightarrow> to_int x = x"
  by (simp add: to_int_def)

lemma to_int_add_left: "to_int (to_int x + y) = to_int (x + y)"
  by (simp add: to_int_def mod_simps ac_simps)

lemma nextPowerOf2_loop_8192: "nextPowerOf2_loop n 8192 = Some 8192"
  by (subst nextPowerOf2_loop.simps) simp

lemma nextPowerOf2_loop_step:
  "0 < p \<Longrightarrow> p < 8192 \<Longrightarrow>
   nextPowerOf2_loop n p = (if n \<le> p then Some p else nextPowerOf2_loop n (2 * p))"
  by (subst nextPowerOf2_loop.simps) (simp add: int_mul_def to_int_id mult.commute)

text \<open>The loop returns for every \<open>n\<close>, after at most six doublings.\<close>

lemma nextPowerOf2_eq:
  "nextPowerOf2 n =
     Some (if n \<le> 128 then 128 else if n \<le> 256 then 256 else if n \<le> 512 then 512
           else if n \<le> 1024 then 1024 else if n \<le> 2048 then 2048
           else if n \<le> 4096 then 4096 else 8192)"
  by (simp add: nextPowerOf2_def nextPowerOf2_loop_step nextPowerOf2_loop_8192)

text \<open>
  \<^verbatim>\<open>totalSize\<close> is the sum of the two lengths and 10 when that sum is an
  \<^verbatim>\<open>int\<close>.
\<close>

lemma total_size_eq:
  "int (length topic) + int (length payload) + 10 \<le> 2147483647 \<Longrightarrow>
   int_add (int_add (int_of_size_t (strlen topic)) (int_of_size_t (strlen payload))) MQTT_OVERHEAD
     = int (length topic) + int (length payload) + 10"
  by (simp add: int_add_def int_of_size_t_def strlen_def MQTT_OVERHEAD_def to_int_id)

lemma ulong_sum_nonzero:
  fixes a b :: ulong
  assumes "b \<noteq> 0" and "unat a + unat b < 2 ^ 32"
  shows "a + b \<noteq> 0"
proof
  assume "a + b = 0"
  moreover from assms(2) have "unat (a + b) = unat a + unat b"
    by (simp add: unat_add_lem [THEN iffD1])
  ultimately have "unat b = 0" by simp
  with assms(1) show False by (simp add: unat_eq_0)
qed

text \<open>
  Every call of \<open>publish\<close> returns, adds 1 to exactly one of the two counters, and calls
  nothing on the client but \<open>getBufferSize\<close>, \<open>connected\<close> and \<open>publish\<close>.
\<close>

lemma publish_cases:
  "\<exists>r s' new. publish cl topic payload s = Some (r, s')
     \<and> ((successCount s' = successCount s + 1 \<and> failCount s' = failCount s)
        \<or> (successCount s' = successCount s \<and> failCount s' = failCount s + 1))
     \<and> calls s' = calls s @ new
     \<and> set new \<subseteq> {Call_getBufferSize, Call_connected, Call_publish topic payload}"
  by (auto simp: publish_def getBufferSize_def connected_def publish_call_def print_def
      nextPowerOf2_eq Let_def split_beta)

text \<open>What \<open>printStats\<close> writes: three lines, and the failure rate when the fail counter is not 0.\<close>

lemma printStats_eq:
  "printStats s =
     s\<lparr>serial := serial s @
        [Stats_header_line, Stats_success_line (successCount s), Stats_failed_line (failCount s)] @
        (if failCount s = 0 then []
         else [Stats_rate_line (failCount s) (successCount s + failCount s)])\<rparr>"
  by (simp add: printStats_def print_def word_gt_0 Let_def)

text \<open>\<open>autoConfigureBuffer\<close> returns for all arguments, after one call of \<open>setBufferSize\<close>.\<close>

lemma autoConfigureBuffer_eq:
  "\<exists>bufSize.
     nextPowerOf2 (int_add (int_add (int_add a b) MQTT_OVERHEAD) 50) = Some bufSize
     \<and> autoConfigureBuffer cl a b s =
         Some (bufSize,
           s\<lparr>client := snd (client_setBufferSize cl bufSize (client s)),
             calls := calls s @ [Call_setBufferSize bufSize],
             serial := serial s @
               [Auto_configured_line bufSize
                  (int_add (int_add (int_add a b) MQTT_OVERHEAD) 50)]\<rparr>)"
  by (simp add: autoConfigureBuffer_def nextPowerOf2_eq setBufferSize_def print_def Let_def
      split_beta)

text \<open>Every operation returns. Its effect on the counters and the calls it makes on the client.\<close>

lemma step_effect:
  "\<exists>s' i j new. step cl x s = Some s'
     \<and> (if x = ResetStats then successCount s' = 0 \<and> failCount s' = 0
        else successCount s' = successCount s + of_nat i \<and> failCount s' = failCount s + of_nat j
           \<and> i + j = (if is_publish x then 1 else 0))
     \<and> calls s' = calls s @ new
     \<and> (if is_autoConfigureBuffer x then (\<exists>v. new = [Call_setBufferSize v])
        else (\<forall>n. Call_setBufferSize n \<notin> set new))"
proof (cases x)
  case (Publish topic payload)
  from publish_cases [of cl topic payload s] obtain r s' new where
    p: "publish cl topic payload s = Some (r, s')"
    and c: "(successCount s' = successCount s + 1 \<and> failCount s' = failCount s)
        \<or> (successCount s' = successCount s \<and> failCount s' = failCount s + 1)"
    and n: "calls s' = calls s @ new"
      "set new \<subseteq> {Call_getBufferSize, Call_connected, Call_publish topic payload}"
    by blast
  from c show ?thesis
  proof
    assume "successCount s' = successCount s + 1 \<and> failCount s' = failCount s"
    with p n Publish show ?thesis
      by (intro exI [of _ s'] exI [of _ 1] exI [of _ 0] exI [of _ new]) auto
  next
    assume "successCount s' = successCount s \<and> failCount s' = failCount s + 1"
    with p n Publish show ?thesis
      by (intro exI [of _ s'] exI [of _ 0] exI [of _ 1] exI [of _ new]) auto
  qed
next
  case (Publish_String topic payload)
  from publish_cases [of cl "c_str topic" "c_str payload" s] obtain r s' new where
    p: "publish cl (c_str topic) (c_str payload) s = Some (r, s')"
    and c: "(successCount s' = successCount s + 1 \<and> failCount s' = failCount s)
        \<or> (successCount s' = successCount s \<and> failCount s' = failCount s + 1)"
    and n: "calls s' = calls s @ new"
      "set new \<subseteq> {Call_getBufferSize, Call_connected, Call_publish (c_str topic) (c_str payload)}"
    by blast
  from c show ?thesis
  proof
    assume "successCount s' = successCount s + 1 \<and> failCount s' = failCount s"
    with p n Publish_String show ?thesis
      by (intro exI [of _ s'] exI [of _ 1] exI [of _ 0] exI [of _ new])
        (auto simp: publish_String_def)
  next
    assume "successCount s' = successCount s \<and> failCount s' = failCount s + 1"
    with p n Publish_String show ?thesis
      by (intro exI [of _ s'] exI [of _ 0] exI [of _ 1] exI [of _ new])
        (auto simp: publish_String_def)
  qed
next
  case (AutoConfigureBuffer a b)
  from autoConfigureBuffer_eq [of a b cl s] AutoConfigureBuffer show ?thesis
    by auto
next
  case PrintStats
  then show ?thesis
    by (simp add: printStats_eq)
next
  case GetSuccessCount
  then show ?thesis by simp
next
  case GetFailCount
  then show ?thesis by simp
next
  case ResetStats
  then show ?thesis by (simp add: resetStats_def)
qed

lemma run_append:
  "run cl (xs @ ys) s = (case run cl xs s of None \<Rightarrow> None | Some s' \<Rightarrow> run cl ys s')"
  by (induction xs arbitrary: s) (auto split: option.splits)

lemma run_total: "\<exists>s'. run cl xs s = Some s'"
proof (induction xs arbitrary: s)
  case Nil
  show ?case by simp
next
  case (Cons x xs)
  from step_effect [of cl x s] obtain s1 where "step cl x s = Some s1"
    by blast
  with Cons [of s1] show ?case by simp
qed

text \<open>Without \<open>resetStats\<close>, the two counters advance together by the number of publish attempts.\<close>

lemma run_effect:
  "ResetStats \<notin> set xs \<Longrightarrow> run cl xs s = Some s' \<Longrightarrow>
   \<exists>i j. i + j = length (filter is_publish xs)
       \<and> successCount s' = successCount s + of_nat i
       \<and> failCount s' = failCount s + of_nat j"
proof (induction xs arbitrary: s)
  case Nil
  then show ?case by simp
next
  case (Cons x xs)
  from Cons.prems(1) have x: "x \<noteq> ResetStats" and xs: "ResetStats \<notin> set xs"
    by auto
  from step_effect [of cl x s] x obtain s1 i j where
    s1: "step cl x s = Some s1" "successCount s1 = successCount s + of_nat i"
      "failCount s1 = failCount s + of_nat j" "i + j = (if is_publish x then 1 else 0)"
    by auto
  from Cons.prems(2) s1(1) have "run cl xs s1 = Some s'"
    by simp
  from Cons.IH [OF xs this] obtain i' j' where
    r: "i' + j' = length (filter is_publish xs)"
      "successCount s' = successCount s1 + of_nat i'"
      "failCount s' = failCount s1 + of_nat j'"
    by blast
  show ?case
    using s1 r by (intro exI [of _ "i + i'"] exI [of _ "j + j'"]) (auto simp: algebra_simps)
qed

lemma ulong_add_nat:
  fixes a :: ulong
  assumes "unat a + i < 2 ^ 32"
  shows "unat (a + of_nat i) = unat a + i"
proof -
  from assms have "i < 2 ^ 32" by simp
  then have "unat (of_nat i :: ulong) = i"
    by (simp add: unat_of_nat take_bit_nat_eq_self)
  with assms show ?thesis
    by (simp add: unat_add_lem [THEN iffD1])
qed

text \<open>On the client for concrete runs, a message that fits is published when the client is connected and accepts it, and fails otherwise.\<close>

lemma test_client_publish:
  assumes "int (length t) + int (length p) + 10 \<le> tc_bufferSize (client s)"
    and "int (length t) + int (length p) + 10 \<le> 2147483647"
  shows "\<exists>s'. publish test_PubSubClient t p s
             = Some (tc_connected (client s) \<and> tc_accepts (client s), s')
          \<and> client s' = client s
          \<and> successCount s' = successCount s
               + (if tc_connected (client s) \<and> tc_accepts (client s) then 1 else 0)
          \<and> failCount s' = failCount s
               + (if tc_connected (client s) \<and> tc_accepts (client s) then 0 else 1)"
  using assms(1)
  by (simp add: publish_def total_size_eq [OF assms(2)] getBufferSize_def connected_def
      publish_call_def print_def Let_def test_PubSubClient_def)

lemma run_replicate_publish:
  assumes "int (length t) + int (length p) + 10 \<le> tc_bufferSize (client s)"
    and "int (length t) + int (length p) + 10 \<le> 2147483647"
  shows "\<exists>s'. run test_PubSubClient (replicate n (Publish t p)) s = Some s'
          \<and> client s' = client s
          \<and> successCount s' = successCount s
               + (if tc_connected (client s) \<and> tc_accepts (client s) then of_nat n else 0)
          \<and> failCount s' = failCount s
               + (if tc_connected (client s) \<and> tc_accepts (client s) then 0 else of_nat n)"
  using assms(1)
proof (induction n arbitrary: s)
  case 0
  show ?case by simp
next
  case (Suc n)
  from test_client_publish [OF Suc.prems assms(2)] obtain s1 where
    s1: "publish test_PubSubClient t p s
           = Some (tc_connected (client s) \<and> tc_accepts (client s), s1)"
      "client s1 = client s"
      "successCount s1 = successCount s
         + (if tc_connected (client s) \<and> tc_accepts (client s) then 1 else 0)"
      "failCount s1 = failCount s
         + (if tc_connected (client s) \<and> tc_accepts (client s) then 0 else 1)"
    by blast
  from Suc.prems s1(2) have "int (length t) + int (length p) + 10 \<le> tc_bufferSize (client s1)"
    by simp
  from Suc.IH [OF this] obtain s' where
    s': "run test_PubSubClient (replicate n (Publish t p)) s1 = Some s'"
      "client s' = client s1"
      "successCount s' = successCount s1
         + (if tc_connected (client s1) \<and> tc_accepts (client s1) then of_nat n else 0)"
      "failCount s' = failCount s1
         + (if tc_connected (client s1) \<and> tc_accepts (client s1) then 0 else of_nat n)"
    by blast
  show ?case
    using s1 s' by (intro exI [of _ s']) simp
qed

text \<open>The calls \<open>publish\<close> makes, and the buffer size the client reports afterwards when the client's own operations keep it.\<close>

lemma publish_frame:
  "\<exists>r s' new. publish cl topic payload s = Some (r, s')
     \<and> calls s' = calls s @ new
     \<and> set new \<subseteq> {Call_getBufferSize, Call_connected, Call_publish topic payload}
     \<and> ((\<forall>c t p.
            reported_bufferSize cl (snd (client_getBufferSize cl c)) = reported_bufferSize cl c
          \<and> reported_bufferSize cl (snd (client_connected cl c)) = reported_bufferSize cl c
          \<and> reported_bufferSize cl (snd (client_publish cl t p c)) = reported_bufferSize cl c)
         \<longrightarrow> reported_bufferSize cl (client s') = reported_bufferSize cl (client s))"
  by (auto simp: publish_def getBufferSize_def connected_def publish_call_def print_def
      nextPowerOf2_eq Let_def split_beta)

section \<open>The claims\<close>

text \<open>
  Claim C1. When \<open>len(topic) + len(payload) + 10\<close> exceeds the buffer size the client
  reports, \<open>publish\<close> returns false, adds 1 to the fail counter (an
  \<^verbatim>\<open>unsigned long\<close>, so the addition is modulo \<open>2 ^ 32\<close>), leaves the success counter
  as it is, and the only call it makes on the client is \<open>getBufferSize\<close>: the client's
  publish operation is not invoked. The sum of the lengths is taken to be an
  \<^verbatim>\<open>int\<close> of the target (at most \<open>2 ^ 31 - 1\<close>), which the memory of the device
  guarantees.
\<close>

theorem publish_oversize:
  assumes "client_getBufferSize cl (client s) = (bufferSize, c)"
    and "int (length topic) + int (length payload) + 10 > bufferSize"
    and "int (length topic) + int (length payload) + 10 \<le> 2147483647"
  shows "\<exists>s'. publish cl topic payload s = Some (False, s')
            \<and> failCount s' = failCount s + 1
            \<and> successCount s' = successCount s
            \<and> calls s' = calls s @ [Call_getBufferSize]
            \<and> client s' = c"
  using assms(1,2)
  by (simp add: publish_def total_size_eq [OF assms(3)] getBufferSize_def nextPowerOf2_eq
      print_def Let_def)

text \<open>
  The scenario of the specification: buffer size 256, topic \<open>a\<close>, a payload of 300
  bytes, on a fresh guard.
\<close>

theorem publish_oversize_witness:
  "\<exists>s'. publish test_PubSubClient ''a'' (replicate 300 CHR ''x'')
            (SafePublish_new \<lparr>tc_bufferSize = 256, tc_connected = True, tc_accepts = True\<rparr>)
          = Some (False, s')
        \<and> failCount s' = 1 \<and> successCount s' = 0 \<and> calls s' = [Call_getBufferSize]"
  using publish_oversize [of test_PubSubClient
      "SafePublish_new \<lparr>tc_bufferSize = 256, tc_connected = True, tc_accepts = True\<rparr>"
      256 "\<lparr>tc_bufferSize = 256, tc_connected = True, tc_accepts = True\<rparr>"
      "''a''" "replicate 300 CHR ''x''"]
  by (auto simp: test_PubSubClient_def SafePublish_new_def)

text \<open>
  Claim C2. When \<open>len(topic) + len(payload) + 10\<close> does not exceed the buffer size the
  client reports, the client reports connected and its publish operation returns true,
  \<open>publish\<close> returns true, adds 1 to the success counter (modulo \<open>2 ^ 32\<close>, the counter
  being an \<^verbatim>\<open>unsigned long\<close>) and leaves the fail counter as it is.
\<close>

theorem publish_success:
  assumes "client_getBufferSize cl (client s) = (bufferSize, c1)"
    and "int (length topic) + int (length payload) + 10 \<le> bufferSize"
    and "int (length topic) + int (length payload) + 10 \<le> 2147483647"
    and "client_connected cl c1 = (True, c2)"
    and "client_publish cl topic payload c2 = (True, c3)"
  shows "\<exists>s'. publish cl topic payload s = Some (True, s')
            \<and> successCount s' = successCount s + 1
            \<and> failCount s' = failCount s
            \<and> calls s' = calls s @ [Call_getBufferSize, Call_connected, Call_publish topic payload]
            \<and> client s' = c3"
  using assms(1,2,4,5)
  by (simp add: publish_def total_size_eq [OF assms(3)] getBufferSize_def connected_def
      publish_call_def print_def Let_def)

text \<open>
  The scenario of the specification: buffer size 512, topic \<open>t\<close>, a payload of 100
  bytes, the client connected and accepting, on a fresh guard.
\<close>

theorem publish_success_witness:
  "\<exists>s'. publish test_PubSubClient ''t'' (replicate 100 CHR ''x'')
            (SafePublish_new \<lparr>tc_bufferSize = 512, tc_connected = True, tc_accepts = True\<rparr>)
          = Some (True, s')
        \<and> successCount s' = 1 \<and> failCount s' = 0
        \<and> calls s' =
            [Call_getBufferSize, Call_connected, Call_publish ''t'' (replicate 100 CHR ''x'')]"
  using publish_success [of test_PubSubClient
      "SafePublish_new \<lparr>tc_bufferSize = 512, tc_connected = True, tc_accepts = True\<rparr>"
      512 "\<lparr>tc_bufferSize = 512, tc_connected = True, tc_accepts = True\<rparr>"
      "''t''" "replicate 100 CHR ''x''"
      "\<lparr>tc_bufferSize = 512, tc_connected = True, tc_accepts = True\<rparr>"
      "\<lparr>tc_bufferSize = 512, tc_connected = True, tc_accepts = True\<rparr>"]
  by (auto simp: test_PubSubClient_def SafePublish_new_def)

text \<open>
  Claim C3. When the computed total size fits within the buffer and the client reports
  not connected, \<open>publish\<close> returns false, adds 1 to the fail counter (modulo \<open>2 ^ 32\<close>),
  leaves the success counter as it is, and calls \<open>getBufferSize\<close> and \<open>connected\<close> on the
  client and nothing else: the client's publish operation is not invoked.
\<close>

theorem publish_not_connected:
  assumes "client_getBufferSize cl (client s) = (bufferSize, c1)"
    and "int (length topic) + int (length payload) + 10 \<le> bufferSize"
    and "int (length topic) + int (length payload) + 10 \<le> 2147483647"
    and "client_connected cl c1 = (False, c2)"
  shows "\<exists>s'. publish cl topic payload s = Some (False, s')
            \<and> failCount s' = failCount s + 1
            \<and> successCount s' = successCount s
            \<and> calls s' = calls s @ [Call_getBufferSize, Call_connected]
            \<and> client s' = c2"
  using assms(1,2,4)
  by (simp add: publish_def total_size_eq [OF assms(3)] getBufferSize_def connected_def
      print_def Let_def)

theorem publish_not_connected_witness:
  "\<exists>s'. publish test_PubSubClient ''t'' (replicate 100 CHR ''x'')
            (SafePublish_new \<lparr>tc_bufferSize = 512, tc_connected = False, tc_accepts = True\<rparr>)
          = Some (False, s')
        \<and> failCount s' = 1 \<and> successCount s' = 0
        \<and> calls s' = [Call_getBufferSize, Call_connected]"
  using publish_not_connected [of test_PubSubClient
      "SafePublish_new \<lparr>tc_bufferSize = 512, tc_connected = False, tc_accepts = True\<rparr>"
      512 "\<lparr>tc_bufferSize = 512, tc_connected = False, tc_accepts = True\<rparr>"
      "''t''" "replicate 100 CHR ''x''"
      "\<lparr>tc_bufferSize = 512, tc_connected = False, tc_accepts = True\<rparr>"]
  by (auto simp: test_PubSubClient_def SafePublish_new_def)

text \<open>
  Claim C4. For every integer \<open>n\<close>, \<open>nextPowerOf2 n\<close> returns a power of two between
  \<open>128 = 2 ^ 7\<close> and \<open>8192 = 2 ^ 13\<close>; it is monotonically non-decreasing in \<open>n\<close>; and it
  returns 8192 for every \<open>n > 8192\<close>.
\<close>

theorem nextPowerOf2_spec:
  "(\<exists>k. 7 \<le> k \<and> k \<le> 13 \<and> nextPowerOf2 n = Some (2 ^ k))
   \<and> (m \<le> n \<longrightarrow> (\<exists>a b. nextPowerOf2 m = Some a \<and> nextPowerOf2 n = Some b \<and> a \<le> b))
   \<and> (8192 < n \<longrightarrow> nextPowerOf2 n = Some 8192)"
proof (intro conjI)
  consider "n \<le> 128" | "128 < n" "n \<le> 256" | "256 < n" "n \<le> 512" | "512 < n" "n \<le> 1024"
    | "1024 < n" "n \<le> 2048" | "2048 < n" "n \<le> 4096" | "4096 < n"
    by linarith
  then show "\<exists>k. 7 \<le> k \<and> k \<le> 13 \<and> nextPowerOf2 n = Some (2 ^ k)"
  proof cases
    case 1
    then have "nextPowerOf2 n = Some (2 ^ 7)" by (simp add: nextPowerOf2_eq)
    then show ?thesis by (intro exI [of _ 7]) simp
  next
    case 2
    then have "nextPowerOf2 n = Some (2 ^ 8)" by (simp add: nextPowerOf2_eq)
    then show ?thesis by (intro exI [of _ 8]) simp
  next
    case 3
    then have "nextPowerOf2 n = Some (2 ^ 9)" by (simp add: nextPowerOf2_eq)
    then show ?thesis by (intro exI [of _ 9]) simp
  next
    case 4
    then have "nextPowerOf2 n = Some (2 ^ 10)" by (simp add: nextPowerOf2_eq)
    then show ?thesis by (intro exI [of _ 10]) simp
  next
    case 5
    then have "nextPowerOf2 n = Some (2 ^ 11)" by (simp add: nextPowerOf2_eq)
    then show ?thesis by (intro exI [of _ 11]) simp
  next
    case 6
    then have "nextPowerOf2 n = Some (2 ^ 12)" by (simp add: nextPowerOf2_eq)
    then show ?thesis by (intro exI [of _ 12]) simp
  next
    case 7
    then have "nextPowerOf2 n = Some (2 ^ 13)" by (simp add: nextPowerOf2_eq)
    then show ?thesis by (intro exI [of _ 13]) simp
  qed
next
  show "m \<le> n \<longrightarrow> (\<exists>a b. nextPowerOf2 m = Some a \<and> nextPowerOf2 n = Some b \<and> a \<le> b)"
    by (simp add: nextPowerOf2_eq)
next
  show "8192 < n \<longrightarrow> nextPowerOf2 n = Some 8192"
    by (simp add: nextPowerOf2_eq)
qed

theorem nextPowerOf2_spec_witness:
  "(\<exists>k. 7 \<le> k \<and> k \<le> 13 \<and> nextPowerOf2 21060 = Some (2 ^ k))
   \<and> (1110::int) \<le> 21060
   \<and> (\<exists>a b. nextPowerOf2 1110 = Some a \<and> nextPowerOf2 21060 = Some b \<and> a \<le> b)
   \<and> (8192::int) < 21060
   \<and> nextPowerOf2 21060 = Some 8192"
proof -
  have "(1110::int) \<le> 21060" and "(8192::int) < 21060"
    by simp_all
  with nextPowerOf2_spec [of 21060 1110] show ?thesis
    by blast
qed

text \<open>
  Claim C5. For all \<open>maxTopicLen\<close> and \<open>maxPayloadLen\<close>, \<open>autoConfigureBuffer\<close> computes
  \<open>needed = maxTopicLen + maxPayloadLen + 10 + 50\<close> in the arithmetic of \<^verbatim>\<open>int\<close>,
  calls \<open>setBufferSize\<close> on the client once, with \<open>nextPowerOf2 needed\<close>, logs that size
  with \<open>needed\<close>, and returns that same size. Whenever the sum is an \<^verbatim>\<open>int\<close> of the
  target, \<open>needed\<close> is the sum itself.
\<close>

theorem autoConfigureBuffer_spec:
  "(\<exists>bufSize.
       nextPowerOf2 (int_add (int_add (int_add maxTopicLen maxPayloadLen) MQTT_OVERHEAD) 50)
         = Some bufSize
     \<and> autoConfigureBuffer cl maxTopicLen maxPayloadLen s =
         Some (bufSize,
           s\<lparr>client := snd (client_setBufferSize cl bufSize (client s)),
             calls := calls s @ [Call_setBufferSize bufSize],
             serial := serial s @
               [Auto_configured_line bufSize
                  (int_add (int_add (int_add maxTopicLen maxPayloadLen) MQTT_OVERHEAD) 50)]\<rparr>))
   \<and> (- 2147483648 \<le> maxTopicLen + maxPayloadLen + 10 + 50
        \<and> maxTopicLen + maxPayloadLen + 10 + 50 \<le> 2147483647 \<longrightarrow>
      int_add (int_add (int_add maxTopicLen maxPayloadLen) MQTT_OVERHEAD) 50
        = maxTopicLen + maxPayloadLen + 10 + 50)"
  by (simp add: autoConfigureBuffer_def nextPowerOf2_eq setBufferSize_def print_def Let_def
      split_beta int_add_def to_int_add_left MQTT_OVERHEAD_def to_int_id)

text \<open>
  The scenario of the specification: \<open>autoConfigureBuffer(50, 1000)\<close> needs 1110 bytes and
  sets and returns 2048.
\<close>

theorem autoConfigureBuffer_spec_witness:
  "autoConfigureBuffer test_PubSubClient 50 1000
       (SafePublish_new \<lparr>tc_bufferSize = 256, tc_connected = True, tc_accepts = True\<rparr>)
     = Some (2048,
         \<lparr>client = \<lparr>tc_bufferSize = 2048, tc_connected = True, tc_accepts = True\<rparr>,
          successCount = 0, failCount = 0,
          calls = [Call_setBufferSize 2048],
          serial = [Auto_configured_line 2048 1110]\<rparr>)
   \<and> (- 2147483648 :: int) \<le> 50 + 1000 + 10 + 50
   \<and> (50 :: int) + 1000 + 10 + 50 \<le> 2147483647
   \<and> int_add (int_add (int_add 50 1000) MQTT_OVERHEAD) 50 = 50 + 1000 + 10 + 50"
  using autoConfigureBuffer_spec [of 50 1000 test_PubSubClient
      "SafePublish_new \<lparr>tc_bufferSize = 256, tc_connected = True, tc_accepts = True\<rparr>"]
  by (auto simp: nextPowerOf2_eq test_PubSubClient_def SafePublish_new_def)

text \<open>
  Claim C6, as amended. \<open>resetStats\<close> sets both counters to 0 whatever they were. Every
  call of \<open>publish\<close> returns and adds 1, modulo \<open>2 ^ 32\<close>, to exactly one of the two
  counters, leaving the other as it is. Every sequence of operations runs to its end; over
  a sequence without \<open>resetStats\<close> the success counter advances by some \<open>i\<close> and the fail
  counter by some \<open>j\<close>, both modulo \<open>2 ^ 32\<close>, where \<open>i + j\<close> is the number of publish
  attempts of the sequence; so a counter whose value plus its increments stays below
  \<open>2 ^ 32\<close> has grown by exactly that many and has not decreased.
\<close>

theorem counters_change:
  "successCount (resetStats s) = 0 \<and> failCount (resetStats s) = 0
   \<and> (\<exists>r s1. publish cl topic payload s = Some (r, s1)
        \<and> ((successCount s1 = successCount s + 1 \<and> failCount s1 = failCount s)
           \<or> (successCount s1 = successCount s \<and> failCount s1 = failCount s + 1)))
   \<and> (\<exists>s'. run cl xs s = Some s')
   \<and> (\<forall>s'. run cl xs s = Some s' \<and> ResetStats \<notin> set xs \<longrightarrow>
        (\<exists>i j. i + j = length (filter is_publish xs)
           \<and> successCount s' = successCount s + of_nat i
           \<and> failCount s' = failCount s + of_nat j
           \<and> (unat (successCount s) + i < 2 ^ 32 \<longrightarrow>
                unat (successCount s') = unat (successCount s) + i)
           \<and> (unat (failCount s) + j < 2 ^ 32 \<longrightarrow>
                unat (failCount s') = unat (failCount s) + j)))"
proof (intro conjI allI impI)
  show "successCount (resetStats s) = 0" and "failCount (resetStats s) = 0"
    by (simp_all add: resetStats_def)
next
  from publish_cases [of cl topic payload s]
  show "\<exists>r s1. publish cl topic payload s = Some (r, s1)
        \<and> ((successCount s1 = successCount s + 1 \<and> failCount s1 = failCount s)
           \<or> (successCount s1 = successCount s \<and> failCount s1 = failCount s + 1))"
    by blast
next
  show "\<exists>s'. run cl xs s = Some s'"
    by (rule run_total)
next
  fix s'
  assume "run cl xs s = Some s' \<and> ResetStats \<notin> set xs"
  then obtain i j where ij: "i + j = length (filter is_publish xs)"
    "successCount s' = successCount s + of_nat i"
    "failCount s' = failCount s + of_nat j"
    using run_effect [of xs cl s s'] by blast
  then show "\<exists>i j. i + j = length (filter is_publish xs)
           \<and> successCount s' = successCount s + of_nat i
           \<and> failCount s' = failCount s + of_nat j
           \<and> (unat (successCount s) + i < 2 ^ 32 \<longrightarrow>
                unat (successCount s') = unat (successCount s) + i)
           \<and> (unat (failCount s) + j < 2 ^ 32 \<longrightarrow>
                unat (failCount s') = unat (failCount s) + j)"
    by (intro exI [of _ i] exI [of _ j]) (simp add: ulong_add_nat)
qed

text \<open>
  A run of four operations from a guard whose counters are 5 and 7: one publish succeeds,
  one is oversize.
\<close>

theorem counters_change_witness:
  "ResetStats \<notin> set [Publish ''t'' ''p'', PrintStats, Publish ''a'' (replicate 300 CHR ''x''), GetFailCount]
   \<and> (\<exists>s'. run test_PubSubClient
          [Publish ''t'' ''p'', PrintStats, Publish ''a'' (replicate 300 CHR ''x''), GetFailCount]
          \<lparr>client = \<lparr>tc_bufferSize = 256, tc_connected = True, tc_accepts = True\<rparr>,
           successCount = 5, failCount = 7, calls = [], serial = []\<rparr> = Some s'
        \<and> successCount s' = 6 \<and> failCount s' = 8
        \<and> (\<exists>i j. i + j = 2 \<and> successCount s' = 5 + of_nat i \<and> failCount s' = 7 + of_nat j))"
proof -
  let ?xs = "[Publish ''t'' ''p'', PrintStats, Publish ''a'' (replicate 300 CHR ''x''), GetFailCount]"
  let ?s = "\<lparr>client = \<lparr>tc_bufferSize = 256, tc_connected = True, tc_accepts = True\<rparr>,
           successCount = 5, failCount = 7, calls = [], serial = []\<rparr>"
  have r: "ResetStats \<notin> set ?xs"
    by simp
  have "\<exists>s'. run test_PubSubClient ?xs ?s = Some s' \<and> successCount s' = 6 \<and> failCount s' = 8"
    by (simp add: publish_def getBufferSize_def connected_def publish_call_def print_def
        nextPowerOf2_eq Let_def test_PubSubClient_def printStats_eq int_add_def int_sub_def
        int_of_size_t_def strlen_def MQTT_OVERHEAD_def to_int_def)
  then obtain s' where s': "run test_PubSubClient ?xs ?s = Some s'"
    "successCount s' = 6" "failCount s' = 8"
    by blast
  from counters_change [of ?s test_PubSubClient "''t''" "''p''" ?xs] s'(1) r
  have "\<exists>i j. i + j = length (filter is_publish ?xs)
      \<and> successCount s' = successCount ?s + of_nat i \<and> failCount s' = failCount ?s + of_nat j"
    by blast
  then have "\<exists>i j. i + j = 2 \<and> successCount s' = 5 + of_nat i \<and> failCount s' = 7 + of_nat j"
    by (simp add: numeral_2_eq_2)
  with r s' show ?thesis
    by blast
qed

text \<open>
  Claim C6 as stated fails where a counter wraps around: with a client that is not
  connected, the fail counter is \<open>2 ^ 32 - 1\<close> after \<open>2 ^ 32 - 1\<close> publish attempts on a fresh
  guard, and 0 after one more, with no \<open>resetStats\<close> in between.
\<close>

theorem counters_change_counterexample:
  "map_option failCount
     (run test_PubSubClient (replicate 4294967295 (Publish ''t'' ''p''))
        (SafePublish_new \<lparr>tc_bufferSize = 256, tc_connected = False, tc_accepts = True\<rparr>))
     = Some 4294967295
   \<and> map_option failCount
     (run test_PubSubClient (replicate 4294967296 (Publish ''t'' ''p''))
        (SafePublish_new \<lparr>tc_bufferSize = 256, tc_connected = False, tc_accepts = True\<rparr>))
     = Some 0
   \<and> (0 :: ulong) < 4294967295"
proof (intro conjI)
  from run_replicate_publish [of "''t''" "''p''"
      "SafePublish_new \<lparr>tc_bufferSize = 256, tc_connected = False, tc_accepts = True\<rparr>"
      4294967295]
  show "map_option failCount
     (run test_PubSubClient (replicate 4294967295 (Publish ''t'' ''p''))
        (SafePublish_new \<lparr>tc_bufferSize = 256, tc_connected = False, tc_accepts = True\<rparr>))
     = Some 4294967295"
    by (auto simp: SafePublish_new_def)
next
  from run_replicate_publish [of "''t''" "''p''"
      "SafePublish_new \<lparr>tc_bufferSize = 256, tc_connected = False, tc_accepts = True\<rparr>"
      4294967296]
  show "map_option failCount
     (run test_PubSubClient (replicate 4294967296 (Publish ''t'' ''p''))
        (SafePublish_new \<lparr>tc_bufferSize = 256, tc_connected = False, tc_accepts = True\<rparr>))
     = Some 0"
    by (auto simp: SafePublish_new_def)
next
  show "(0 :: ulong) < 4294967295"
    by simp
qed

text \<open>
  Claim C7, as amended. \<open>autoConfigureBuffer(1000, 20000)\<close> computes
  \<open>needed = 1000 + 20000 + 10 + 50 = 21060\<close>, calls \<open>setBufferSize\<close> on the client with
  8192, the ceiling of the sizing rule, and returns 8192.
\<close>

theorem autoConfigureBuffer_1000_20000:
  "autoConfigureBuffer cl 1000 20000 s =
     Some (8192,
       s\<lparr>client := snd (client_setBufferSize cl 8192 (client s)),
         calls := calls s @ [Call_setBufferSize 8192],
         serial := serial s @ [Auto_configured_line 8192 21060]\<rparr>)"
  by (simp add: autoConfigureBuffer_def nextPowerOf2_eq setBufferSize_def print_def Let_def
      split_beta int_add_def MQTT_OVERHEAD_def to_int_def)

text \<open>
  Claim C7 as stated gives \<open>needed = 21080\<close>; the value the code computes and logs is
  21060.
\<close>

theorem autoConfigureBuffer_1000_20000_counterexample:
  "map_option (\<lambda>(r, s'). (r, serial s'))
     (autoConfigureBuffer test_PubSubClient 1000 20000
        (SafePublish_new \<lparr>tc_bufferSize = 256, tc_connected = True, tc_accepts = True\<rparr>))
   = Some (8192, [Auto_configured_line 8192 21060])
   \<and> map_option (\<lambda>(r, s'). (r, serial s'))
     (autoConfigureBuffer test_PubSubClient 1000 20000
        (SafePublish_new \<lparr>tc_bufferSize = 256, tc_connected = True, tc_accepts = True\<rparr>))
   \<noteq> Some (8192, [Auto_configured_line 8192 21080])"
  by (simp add: autoConfigureBuffer_def nextPowerOf2_eq setBufferSize_def print_def Let_def
      split_beta int_add_def MQTT_OVERHEAD_def to_int_def test_PubSubClient_def SafePublish_new_def)

text \<open>
  Claim C8. The \<^verbatim>\<open>String\<close> overload of \<open>publish\<close> is the primitive \<open>publish\<close> on the
  C strings of its two arguments: the same result, the same counters, the same calls on the
  client and the same output, from every state and for every client.
\<close>

theorem publish_String_forwards:
  "publish_String cl topic payload s = publish cl (c_str topic) (c_str payload) s
   \<and> publish_String cl (String t) (String p) s = publish cl t p s"
  by (simp add: publish_String_def)

text \<open>
  Claim C9, as amended. \<open>printStats\<close> changes nothing but the output: it writes the
  header, the two counters and, exactly when the fail counter is not 0, the failure rate,
  whose divisor is \<open>success + fail\<close> modulo \<open>2 ^ 32\<close>. When the fail counter is not 0 and
  \<open>success + fail\<close> is below \<open>2 ^ 32\<close>, that divisor is not 0.
\<close>

theorem printStats_divisor:
  "printStats s =
     s\<lparr>serial := serial s @
        [Stats_header_line, Stats_success_line (successCount s), Stats_failed_line (failCount s)] @
        (if failCount s = 0 then []
         else [Stats_rate_line (failCount s) (successCount s + failCount s)])\<rparr>
   \<and> (failCount s \<noteq> 0 \<and> unat (successCount s) + unat (failCount s) < 2 ^ 32 \<longrightarrow>
        successCount s + failCount s \<noteq> 0)"
  by (simp add: printStats_eq ulong_sum_nonzero)

theorem printStats_divisor_witness:
  "printStats \<lparr>client = (), successCount = 3, failCount = 1, calls = [], serial = []\<rparr> =
     \<lparr>client = (), successCount = 3, failCount = 1, calls = [],
      serial = [Stats_header_line, Stats_success_line 3, Stats_failed_line 1, Stats_rate_line 1 4]\<rparr>
   \<and> (1::ulong) \<noteq> 0 \<and> unat (3::ulong) + unat (1::ulong) < 2 ^ 32 \<and> (3::ulong) + 1 \<noteq> 0"
  using printStats_divisor
    [of "\<lparr>client = (), successCount = 3, failCount = 1, calls = [], serial = []\<rparr>"]
  by simp

text \<open>
  Claim C9 as stated fails where the sum wraps around: with the success counter at
  \<open>2 ^ 32 - 1\<close> and the fail counter at 1 the failure rate is computed with the divisor 0.
  A fresh guard is in that state after \<open>2 ^ 32 - 1\<close> successful publish attempts and one
  oversize attempt.
\<close>

theorem printStats_divisor_counterexample:
  "serial (printStats
      \<lparr>client = (), successCount = 4294967295, failCount = 1, calls = [], serial = []\<rparr>)
   = [Stats_header_line, Stats_success_line 4294967295, Stats_failed_line 1,
      Stats_rate_line 1 0]
   \<and> map_option (last \<circ> serial)
       (run test_PubSubClient
          (replicate 4294967295 (Publish ''t'' ''p'')
             @ [Publish ''a'' (replicate 300 CHR ''x''), PrintStats])
          (SafePublish_new \<lparr>tc_bufferSize = 256, tc_connected = True, tc_accepts = True\<rparr>))
     = Some (Stats_rate_line 1 0)"
proof
  show "serial (printStats
      \<lparr>client = (), successCount = 4294967295, failCount = 1, calls = [], serial = []\<rparr>)
   = [Stats_header_line, Stats_success_line 4294967295, Stats_failed_line 1,
      Stats_rate_line 1 0]"
    by (simp add: printStats_eq)
next
  let ?s = "SafePublish_new \<lparr>tc_bufferSize = 256, tc_connected = True, tc_accepts = True\<rparr>"
  from run_replicate_publish [of "''t''" "''p''" ?s 4294967295]
  obtain s1 where s1: "run test_PubSubClient (replicate 4294967295 (Publish ''t'' ''p'')) ?s = Some s1"
    "client s1 = \<lparr>tc_bufferSize = 256, tc_connected = True, tc_accepts = True\<rparr>"
    "successCount s1 = 4294967295" "failCount s1 = 0"
    by (auto simp: SafePublish_new_def)
  have "\<exists>s2. publish test_PubSubClient ''a'' (replicate 300 CHR ''x'') s1 = Some (False, s2)
      \<and> successCount s2 = 4294967295 \<and> failCount s2 = 1"
    using s1(2,3,4)
    by (simp add: publish_def getBufferSize_def print_def nextPowerOf2_eq Let_def
        test_PubSubClient_def int_add_def int_of_size_t_def strlen_def MQTT_OVERHEAD_def
        to_int_def)
  then obtain s2 where s2: "publish test_PubSubClient ''a'' (replicate 300 CHR ''x'') s1 = Some (False, s2)"
    "successCount s2 = 4294967295" "failCount s2 = 1"
    by blast
  show "map_option (last \<circ> serial)
       (run test_PubSubClient
          (replicate 4294967295 (Publish ''t'' ''p'')
             @ [Publish ''a'' (replicate 300 CHR ''x''), PrintStats])
          ?s)
     = Some (Stats_rate_line 1 0)"
    using s1(1) s2 by (simp add: run_append printStats_eq)
qed

text \<open>
  Claim C10. Both overloads of \<open>publish\<close> return from every state, for all arguments
  and every client, having called nothing on the client but \<open>getBufferSize\<close>,
  \<open>connected\<close> and \<open>publish\<close>; when these three operations of the client keep the
  buffer size it reports, the size reported after \<open>publish\<close> is the size reported
  before. Among all operations of the guard, \<open>autoConfigureBuffer\<close> calls
  \<open>setBufferSize\<close> (once) and no other operation calls it.
\<close>

theorem publish_keeps_bufferSize:
  "(\<exists>r s' new. publish cl topic payload s = Some (r, s')
     \<and> calls s' = calls s @ new
     \<and> set new \<subseteq> {Call_getBufferSize, Call_connected, Call_publish topic payload}
     \<and> ((\<forall>c t p.
            reported_bufferSize cl (snd (client_getBufferSize cl c)) = reported_bufferSize cl c
          \<and> reported_bufferSize cl (snd (client_connected cl c)) = reported_bufferSize cl c
          \<and> reported_bufferSize cl (snd (client_publish cl t p c)) = reported_bufferSize cl c)
         \<longrightarrow> reported_bufferSize cl (client s') = reported_bufferSize cl (client s)))
   \<and> (\<exists>r s' new. publish_String cl topic' payload' s = Some (r, s')
     \<and> calls s' = calls s @ new
     \<and> set new \<subseteq>
         {Call_getBufferSize, Call_connected, Call_publish (c_str topic') (c_str payload')}
     \<and> ((\<forall>c t p.
            reported_bufferSize cl (snd (client_getBufferSize cl c)) = reported_bufferSize cl c
          \<and> reported_bufferSize cl (snd (client_connected cl c)) = reported_bufferSize cl c
          \<and> reported_bufferSize cl (snd (client_publish cl t p c)) = reported_bufferSize cl c)
         \<longrightarrow> reported_bufferSize cl (client s') = reported_bufferSize cl (client s)))
   \<and> (\<exists>s' new. step cl x s = Some s'
     \<and> calls s' = calls s @ new
     \<and> (if is_autoConfigureBuffer x then (\<exists>v. new = [Call_setBufferSize v])
        else (\<forall>n. Call_setBufferSize n \<notin> set new)))"
proof (intro conjI)
  show "\<exists>r s' new. publish cl topic payload s = Some (r, s')
     \<and> calls s' = calls s @ new
     \<and> set new \<subseteq> {Call_getBufferSize, Call_connected, Call_publish topic payload}
     \<and> ((\<forall>c t p.
            reported_bufferSize cl (snd (client_getBufferSize cl c)) = reported_bufferSize cl c
          \<and> reported_bufferSize cl (snd (client_connected cl c)) = reported_bufferSize cl c
          \<and> reported_bufferSize cl (snd (client_publish cl t p c)) = reported_bufferSize cl c)
         \<longrightarrow> reported_bufferSize cl (client s') = reported_bufferSize cl (client s))"
    by (rule publish_frame)
next
  show "\<exists>r s' new. publish_String cl topic' payload' s = Some (r, s')
     \<and> calls s' = calls s @ new
     \<and> set new \<subseteq>
         {Call_getBufferSize, Call_connected, Call_publish (c_str topic') (c_str payload')}
     \<and> ((\<forall>c t p.
            reported_bufferSize cl (snd (client_getBufferSize cl c)) = reported_bufferSize cl c
          \<and> reported_bufferSize cl (snd (client_connected cl c)) = reported_bufferSize cl c
          \<and> reported_bufferSize cl (snd (client_publish cl t p c)) = reported_bufferSize cl c)
         \<longrightarrow> reported_bufferSize cl (client s') = reported_bufferSize cl (client s))"
    unfolding publish_String_def by (rule publish_frame)
next
  from step_effect [of cl x s]
  show "\<exists>s' new. step cl x s = Some s'
     \<and> calls s' = calls s @ new
     \<and> (if is_autoConfigureBuffer x then (\<exists>v. new = [Call_setBufferSize v])
        else (\<forall>n. Call_setBufferSize n \<notin> set new))"
    by blast
qed

theorem publish_keeps_bufferSize_witness:
  "(\<forall>c t p.
      reported_bufferSize test_PubSubClient (snd (client_getBufferSize test_PubSubClient c))
        = reported_bufferSize test_PubSubClient c
    \<and> reported_bufferSize test_PubSubClient (snd (client_connected test_PubSubClient c))
        = reported_bufferSize test_PubSubClient c
    \<and> reported_bufferSize test_PubSubClient (snd (client_publish test_PubSubClient t p c))
        = reported_bufferSize test_PubSubClient c)
   \<and> (\<exists>r s' new.
        publish test_PubSubClient ''t'' ''p''
          (SafePublish_new \<lparr>tc_bufferSize = 256, tc_connected = True, tc_accepts = True\<rparr>)
          = Some (r, s')
      \<and> calls s' = new
      \<and> set new \<subseteq> {Call_getBufferSize, Call_connected, Call_publish ''t'' ''p''}
      \<and> reported_bufferSize test_PubSubClient (client s') = 256)"
proof -
  let ?s = "SafePublish_new \<lparr>tc_bufferSize = 256, tc_connected = True, tc_accepts = True\<rparr>"
  have h: "\<forall>c t p.
      reported_bufferSize test_PubSubClient (snd (client_getBufferSize test_PubSubClient c))
        = reported_bufferSize test_PubSubClient c
    \<and> reported_bufferSize test_PubSubClient (snd (client_connected test_PubSubClient c))
        = reported_bufferSize test_PubSubClient c
    \<and> reported_bufferSize test_PubSubClient (snd (client_publish test_PubSubClient t p c))
        = reported_bufferSize test_PubSubClient c"
    by (simp add: reported_bufferSize_def test_PubSubClient_def)
  have c: "calls ?s = []" and b: "reported_bufferSize test_PubSubClient (client ?s) = 256"
    by (simp_all add: SafePublish_new_def reported_bufferSize_def test_PubSubClient_def)
  from publish_keeps_bufferSize [of test_PubSubClient "''t''" "''p''" ?s "String ''t''" "String ''p''" PrintStats]
  obtain r s' new where "publish test_PubSubClient ''t'' ''p'' ?s = Some (r, s')"
    "calls s' = calls ?s @ new"
    "set new \<subseteq> {Call_getBufferSize, Call_connected, Call_publish ''t'' ''p''}"
    "reported_bufferSize test_PubSubClient (client s') = reported_bufferSize test_PubSubClient (client ?s)"
    using h by blast
  with h c b show ?thesis
    by (intro conjI exI [of _ r] exI [of _ s'] exI [of _ new]) simp_all
qed

end
